theory Spec2Isabelle
  imports Main "HOL-Library.Word"
begin

section \<open>The tflite interpreter of nntrainer: exporting a graph to a model container\<close>

text \<open>
  This theory embeds \<^verbatim>\<open>nntrainer/compiler/tflite_interpreter.cpp\<close>. Every function of
  that file becomes a HOL function of the same name. A C++ exception is a value of the
  type \<open>error\<close>; a function that can throw returns \<open>error + 'a\<close>, with \<open>Inl\<close> for the
  exception. Pointers are addresses (natural numbers); \<^verbatim>\<open>unsigned int\<close> is a 32-bit word
  and \<^verbatim>\<open>size_t\<close>, which only counts the elements of a vector, is a natural number.
\<close>

subsection \<open>Exceptions\<close>

text \<open>
  Every \<^verbatim>\<open>throw\<close> of the file raises \<^verbatim>\<open>std::invalid_argument\<close>; the five sites differ in
  their message, and the model has one constructor for each site:
  \<^item> \<open>NotSupportedType\<close>: \<^verbatim>\<open>"not supported type"\<close> (\<^verbatim>\<open>TfOpNode::setOpType\<close>);
  \<^item> \<open>CannotFindIndex\<close>: \<^verbatim>\<open>"Cannot find index for key: "\<close> (\<^verbatim>\<open>getIndex\<close>);
  \<^item> \<open>CannotFindData\<close>: \<^verbatim>\<open>"Cannot find data for index: "\<close> (\<^verbatim>\<open>getData\<close>);
  \<^item> \<open>VerifyingFailed\<close>: \<^verbatim>\<open>"Verifying serialized model failed"\<close> (\<^verbatim>\<open>builder2file\<close>);
  \<^item> \<open>FailedToOpen\<close>: \<^verbatim>\<open>"failed to open, reason: "\<close> (\<^verbatim>\<open>builder2file\<close>).
  The macro \<^verbatim>\<open>NNTR_THROW_IF(pred, err)\<close> comes from \<^verbatim>\<open>nntrainer_error.h\<close>, which is not
  embedded here; it throws \<^verbatim>\<open>err\<close> with the streamed message when \<^verbatim>\<open>pred\<close> holds and
  does nothing otherwise.
\<close>

datatype error =
    NotSupportedType
  | CannotFindIndex
  | CannotFindData
  | VerifyingFailed
  | FailedToOpen

subsection \<open>BidirectionalIndexMap\<close>

text \<open>
  \<^verbatim>\<open>std::unordered_map<T, unsigned int> data2index\<close> is a partial map into 32-bit words,
  \<^verbatim>\<open>std::vector<T> index2data\<close> a list. A default-constructed map has both empty.
\<close>

type_synonym uint = "32 word"

record 'a BidirectionalIndexMap =
  data2index :: "'a \<rightharpoonup> uint"
  index2data :: "'a list"

definition BidirectionalIndexMap_new :: "'a BidirectionalIndexMap" where
  "BidirectionalIndexMap_new = \<lparr>data2index = Map.empty, index2data = []\<rparr>"

text \<open>
  \<^verbatim>\<open>addDataWhenNotFound\<close>: when the key is absent, \<^verbatim>\<open>data2index[data] = index2data.size()\<close>
  converts the \<^verbatim>\<open>size_t\<close> to \<^verbatim>\<open>unsigned int\<close> (modulo \<open>2 ^ 32\<close>, which is what \<open>of_nat\<close>
  into a word does), then the value is pushed to the back of the vector.
\<close>

definition addDataWhenNotFound ::
  "'a \<Rightarrow> 'a BidirectionalIndexMap \<Rightarrow> 'a BidirectionalIndexMap" where
  "addDataWhenNotFound data m =
     (case data2index m data of
        None \<Rightarrow> \<lparr>data2index = (data2index m)(data \<mapsto> of_nat (length (index2data m))),
                 index2data = index2data m @ [data]\<rparr>
      | Some _ \<Rightarrow> m)"

text \<open>
  \<^verbatim>\<open>getIndex\<close> is a \<^verbatim>\<open>const\<close> member: it reads the map and returns a result, so the model
  is a function of the map with no successor state. Its last statement is
  \<^verbatim>\<open>return *search;\<close>, and \<^verbatim>\<open>*search\<close> is the entry the iterator points to, the
  \<^verbatim>\<open>std::pair\<close> of the key and its index: this pair is what the model returns. The member
  is declared \<^verbatim>\<open>unsigned int getIndex(const T &key) const\<close> and documented
  \<^verbatim>\<open>@return unsigned int index\<close>; a \<^verbatim>\<open>std::pair\<close> does not convert to \<^verbatim>\<open>unsigned int\<close>, so the
  member is ill-formed wherever it is instantiated, and the file compiles because
  nothing in it calls \<^verbatim>\<open>getIndex\<close>.
\<close>

definition getIndex :: "'a BidirectionalIndexMap \<Rightarrow> 'a \<Rightarrow> error + ('a \<times> uint)" where
  "getIndex m key =
     (case data2index m key of
        None \<Rightarrow> Inl CannotFindIndex
      | Some i \<Rightarrow> Inr (key, i))"

text \<open>
  \<^verbatim>\<open>getData\<close>, \<^verbatim>\<open>const\<close> as well: the comparison \<^verbatim>\<open>index >= index2data.size()\<close> is made
  in \<^verbatim>\<open>size_t\<close>, hence on the unsigned value of the index.
\<close>

definition getData :: "'a BidirectionalIndexMap \<Rightarrow> uint \<Rightarrow> error + 'a" where
  "getData m index =
     (if unat index \<ge> length (index2data m) then Inl CannotFindData
      else Inr (index2data m ! unat index))"

text \<open>Inserting a sequence of values, first to last, into a map.\<close>

definition addAll :: "'a list \<Rightarrow> 'a BidirectionalIndexMap \<Rightarrow> 'a BidirectionalIndexMap" where
  "addAll xs m = fold addDataWhenNotFound xs m"

text \<open>
  The values of a sequence in the order of their first occurrence: what a map that
  assigns indices "first seen wins" is expected to hold in its vector.
\<close>

fun first_occurrences :: "'a list \<Rightarrow> 'a list" where
  "first_occurrences [] = []"
| "first_occurrences (x # xs) = x # filter (\<lambda>y. y \<noteq> x) (first_occurrences xs)"

text \<open>The representation invariant of the two containers of a map.\<close>

definition wf_index_map :: "'a BidirectionalIndexMap \<Rightarrow> bool" where
  "wf_index_map m \<longleftrightarrow>
     distinct (index2data m) \<and> dom (data2index m) = set (index2data m) \<and>
     (\<forall>j < length (index2data m). data2index m (index2data m ! j) = Some (of_nat j))"

subsection \<open>Tensors, variables, layers and the graph\<close>

text \<open>
  \<^verbatim>\<open>Tensor\<close>, \<^verbatim>\<open>Var_Grad\<close>, \<^verbatim>\<open>Weight\<close>, \<^verbatim>\<open>Layer\<close> and \<^verbatim>\<open>GraphRepresentation\<close> are declared in
  headers that are not embedded here. Each is a record of the member functions
  the interpreter calls, under the member's name (\<^verbatim>\<open>Tensor::getData\<close> is \<open>Tensor_getData\<close>,
  apart from \<open>getData\<close> of the index map). A \<^verbatim>\<open>const Var_Grad *\<close> and a
  \<^verbatim>\<open>const float *\<close> are addresses; a \<^verbatim>\<open>std::shared_ptr<Var_Grad>\<close> is the address that its
  \<^verbatim>\<open>get()\<close> returns, and an element of the layer's \<^verbatim>\<open>std::vector<Weight>\<close> is the address
  that \<^verbatim>\<open>&data\<close> takes of it.
\<close>

type_synonym float_ptr = nat
type_synonym var_grad_ptr = nat

record Tensor =
  uninitialized :: bool
  isAllocated :: bool
  Tensor_getData :: float_ptr

record Var_Grad =
  getVariableRef :: Tensor

record Layer =
  getInputRef :: "var_grad_ptr list"
  getOutputRef :: "var_grad_ptr list"
  getWeightsRef :: "var_grad_ptr list"
  getType :: string

record LayerNode =
  getObject :: Layer

record GraphRepresentation =
  getSorted :: "LayerNode list"

subsection \<open>The flatbuffers builder and the file system\<close>

text \<open>
  flatbuffers is an external library. The model keeps of a \<^verbatim>\<open>FlatBufferBuilder\<close> the
  objects created in it, in order, and the root passed to \<^verbatim>\<open>Finish\<close> (the file identifier
  passed with it, \<^verbatim>\<open>tflite::ModelIdentifier()\<close>, is a constant of the schema and is not
  kept); the offset of the \<open>k\<close>-th object is \<open>k\<close>, and a default-constructed
  \<^verbatim>\<open>Offset<T>()\<close> is \<open>0\<close>, which refers to nothing. A \<^verbatim>\<open>tflite::ModelBuilder\<close> is the table under construction: a field
  is \<open>None\<close> until the matching \<^verbatim>\<open>add_...\<close> is called.
\<close>

type_synonym offset = nat

record ModelBuilder =
  version :: "uint option"
  operator_codes :: "offset option"
  subgraphs :: "offset option"
  description :: "offset option"
  buffers :: "offset option"

datatype fbb_object = fbb_String string | fbb_Model ModelBuilder

record FlatBufferBuilder =
  objects :: "fbb_object list"
  root :: "offset option"

definition FlatBufferBuilder_new :: FlatBufferBuilder where
  "FlatBufferBuilder_new = \<lparr>objects = [], root = None\<rparr>"

definition CreateString :: "string \<Rightarrow> FlatBufferBuilder \<Rightarrow> offset \<times> FlatBufferBuilder" where
  "CreateString str fbb =
     (Suc (length (objects fbb)), fbb\<lparr>objects := objects fbb @ [fbb_String str]\<rparr>)"

definition ModelBuilder_new :: ModelBuilder where
  "ModelBuilder_new =
     \<lparr>version = None, operator_codes = None, subgraphs = None, description = None,
      buffers = None\<rparr>"

definition add_version :: "uint \<Rightarrow> ModelBuilder \<Rightarrow> ModelBuilder" where
  "add_version v mb = mb\<lparr>version := Some v\<rparr>"

definition add_description :: "offset \<Rightarrow> ModelBuilder \<Rightarrow> ModelBuilder" where
  "add_description d mb = mb\<lparr>description := Some d\<rparr>"

definition ModelBuilder_Finish ::
  "ModelBuilder \<Rightarrow> FlatBufferBuilder \<Rightarrow> offset \<times> FlatBufferBuilder" where
  "ModelBuilder_Finish mb fbb =
     (Suc (length (objects fbb)), fbb\<lparr>objects := objects fbb @ [fbb_Model mb]\<rparr>)"

definition Finish :: "offset \<Rightarrow> FlatBufferBuilder \<Rightarrow> FlatBufferBuilder" where
  "Finish r fbb = fbb\<lparr>root := Some r\<rparr>"

text \<open>The root table of a finished builder, if its root is a model table.\<close>

definition root_model :: "FlatBufferBuilder \<Rightarrow> ModelBuilder option" where
  "root_model fbb =
     (case root fbb of
        None \<Rightarrow> None
      | Some r \<Rightarrow>
          if r = 0 \<or> r > length (objects fbb) then None
          else (case objects fbb ! (r - 1) of
                  fbb_Model mb \<Rightarrow> Some mb
                | fbb_String _ \<Rightarrow> None))"

text \<open>A file system maps a path to the bytes of the file there.\<close>

type_synonym files = "string \<rightharpoonup> 8 word list"

text \<open>
  What the file uses and does not define is collected in one record:
  \<^item> \<open>FullyConnectedLayer_type\<close>: the constant \<^verbatim>\<open>FullyConnectedLayer::type\<close> (\<^verbatim>\<open>fc_layer.h\<close>);
  \<^item> \<open>var_grad_at\<close>: the memory, giving the \<^verbatim>\<open>Var_Grad\<close> at an address;
  \<^item> \<open>empty_buffer\<close>: the address of the member \<^verbatim>\<open>float empty_buffer[0]\<close> of the
    \<^verbatim>\<open>TfOpIdxMap\<close> under construction;
  \<^item> \<open>GetBuffer\<close>: the bytes between \<^verbatim>\<open>GetBufferPointer()\<close> and that plus \<^verbatim>\<open>GetSize()\<close>,
    the encoding that flatbuffers gives the builder's content;
  \<^item> \<open>VerifyModelBuffer\<close>: \<^verbatim>\<open>tflite::VerifyModelBuffer\<close> on a verifier over these bytes;
  \<^item> \<open>ofstream_good\<close>: whether \<^verbatim>\<open>os.good()\<close> holds after \<^verbatim>\<open>std::ofstream os(out, binary)\<close>,
    that is, whether the path could be opened for writing.
\<close>

record env =
  FullyConnectedLayer_type :: string
  var_grad_at :: "var_grad_ptr \<Rightarrow> Var_Grad"
  empty_buffer :: float_ptr
  GetBuffer :: "FlatBufferBuilder \<Rightarrow> 8 word list"
  VerifyModelBuffer :: "8 word list \<Rightarrow> bool"
  ofstream_good :: "files \<Rightarrow> string \<Rightarrow> bool"

text \<open>
  \<^verbatim>\<open>std::ofstream os(out, std::ios_base::binary)\<close> creates the file or truncates it;
  \<^verbatim>\<open>os.write\<close> appends the bytes; \<^verbatim>\<open>os.close()\<close> changes nothing more. The source does
  not test the stream after \<^verbatim>\<open>write\<close>, and the model takes the write to be complete.
\<close>

definition ofstream_open :: "string \<Rightarrow> files \<Rightarrow> files" where
  "ofstream_open out fs = fs(out \<mapsto> [])"

definition ofstream_write :: "string \<Rightarrow> 8 word list \<Rightarrow> files \<Rightarrow> files" where
  "ofstream_write out bytes fs =
     (case fs out of None \<Rightarrow> fs | Some old \<Rightarrow> fs(out \<mapsto> old @ bytes))"

text \<open>
  \<^verbatim>\<open>builder2file\<close> returns the exception or nothing, with the file system it leaves.
\<close>

definition builder2file ::
  "env \<Rightarrow> FlatBufferBuilder \<Rightarrow> string \<Rightarrow> files \<Rightarrow> (error + unit) \<times> files" where
  "builder2file E builder out fs =
     (let buf = GetBuffer E builder in
      if \<not> VerifyModelBuffer E buf then (Inl VerifyingFailed, fs)
      else if \<not> ofstream_good E fs out then (Inl FailedToOpen, fs)
      else (Inr (), ofstream_write out (GetBuffer E builder) (ofstream_open out fs)))"

subsection \<open>TfOpNode\<close>

text \<open>
  \<^verbatim>\<open>tflite::BuiltinOperator\<close> is an enumeration of the generated schema header. The file
  names one of its values; the others are kept apart by their number.
\<close>

datatype BuiltinOperator = BuiltinOperator_FULLY_CONNECTED | BuiltinOperator_other nat

text \<open>
  The members of a \<^verbatim>\<open>TfOpNode\<close>. The default constructor leaves the three vectors empty
  and \<^verbatim>\<open>op_type\<close> unassigned, which is \<open>None\<close> here. The members \<^verbatim>\<open>builtin_ops\<close> and
  \<^verbatim>\<open>builtin_option_type\<close> are written by \<^verbatim>\<open>setBuiltinOptions\<close> only, which nothing calls.
  The getters \<^verbatim>\<open>getInputs\<close>, \<^verbatim>\<open>getOutputs\<close>, \<^verbatim>\<open>getWeights\<close> and \<^verbatim>\<open>getOpType\<close> return the
  members.
\<close>

record TfOpNode =
  inputs :: "var_grad_ptr list"
  outputs :: "var_grad_ptr list"
  weights :: "var_grad_ptr list"
  op_type :: "BuiltinOperator option"

definition TfOpNode_default :: TfOpNode where
  "TfOpNode_default = \<lparr>inputs = [], outputs = [], weights = [], op_type = None\<rparr>"

text \<open>
  \<^verbatim>\<open>std::transform\<close> with a \<^verbatim>\<open>std::back_inserter\<close> appends, for every element of the
  argument, the address that the lambda takes of it (\<^verbatim>\<open>data.get()\<close>, \<^verbatim>\<open>&data\<close>); the argument
  of the model is the list of these addresses.
\<close>

definition setInputs :: "var_grad_ptr list \<Rightarrow> TfOpNode \<Rightarrow> TfOpNode" where
  "setInputs inputs' n = n\<lparr>inputs := inputs n @ inputs'\<rparr>"

definition setOutputs :: "var_grad_ptr list \<Rightarrow> TfOpNode \<Rightarrow> TfOpNode" where
  "setOutputs outputs' n = n\<lparr>outputs := outputs n @ outputs'\<rparr>"

definition setWeights :: "var_grad_ptr list \<Rightarrow> TfOpNode \<Rightarrow> TfOpNode" where
  "setWeights weights' n = n\<lparr>weights := weights n @ weights'\<rparr>"

text \<open>
  Modelled from the spec: the body of \<^verbatim>\<open>istrequal\<close> is missing, the function is only called
  here. It compares two strings without regard to the case of their letters: equal
  lengths, and equal characters after \<^verbatim>\<open>tolower\<close>, which in the C locale moves
  \<^verbatim>\<open>'A'\<close> to \<^verbatim>\<open>'Z'\<close> (65 to 90) up by 32 and leaves every other character.
\<close>

definition tolower :: "char \<Rightarrow> char" where
  "tolower c =
     (let n = (of_char c :: nat) in if 65 \<le> n \<and> n \<le> 90 then char_of (n + 32) else c)"

definition istrequal :: "string \<Rightarrow> string \<Rightarrow> bool" where
  "istrequal a b \<longleftrightarrow> length a = length b \<and> map tolower a = map tolower b"

text \<open>The private overload \<^verbatim>\<open>setOpType(tflite::BuiltinOperator)\<close> assigns the member.\<close>

definition setOpType_op :: "BuiltinOperator \<Rightarrow> TfOpNode \<Rightarrow> TfOpNode" where
  "setOpType_op op_type' n = n\<lparr>op_type := Some op_type'\<rparr>"

text \<open>The public \<^verbatim>\<open>setOpType(const std::string &)\<close>: one comparison, then the throw.\<close>

definition setOpType :: "env \<Rightarrow> string \<Rightarrow> TfOpNode \<Rightarrow> error + TfOpNode" where
  "setOpType E type n =
     (if istrequal type (FullyConnectedLayer_type E)
      then Inr (setOpType_op BuiltinOperator_FULLY_CONNECTED n)
      else Inl NotSupportedType)"

text \<open>The constructor \<^verbatim>\<open>TfOpNode(const Layer &)\<close>: four calls on a fresh node.\<close>

definition TfOpNode_of_Layer :: "env \<Rightarrow> Layer \<Rightarrow> error + TfOpNode" where
  "TfOpNode_of_Layer E layer =
     setOpType E (getType layer)
       (setWeights (getWeightsRef layer)
         (setOutputs (getOutputRef layer)
           (setInputs (getInputRef layer) TfOpNode_default)))"

subsection \<open>TfOpIdxMap\<close>

text \<open>
  The tuple of three maps, told apart by their element type in the source, has one
  field for each here.
\<close>

record TfOpIdxMap =
  buffer_map :: "float_ptr BidirectionalIndexMap"
  opcode_map :: "BuiltinOperator option BidirectionalIndexMap"
  variable_map :: "var_grad_ptr BidirectionalIndexMap"

text \<open>The three closures of the constructor.\<close>

definition update_opcode :: "BuiltinOperator option \<Rightarrow> TfOpIdxMap \<Rightarrow> TfOpIdxMap" where
  "update_opcode opcode M = M\<lparr>opcode_map := addDataWhenNotFound opcode (opcode_map M)\<rparr>"

definition update_buffers :: "env \<Rightarrow> var_grad_ptr list \<Rightarrow> TfOpIdxMap \<Rightarrow> TfOpIdxMap" where
  "update_buffers E variables M =
     fold (\<lambda>variable M.
             let t = getVariableRef (var_grad_at E variable) in
             if \<not> uninitialized t \<and> isAllocated t
             then M\<lparr>buffer_map := addDataWhenNotFound (Tensor_getData t) (buffer_map M)\<rparr>
             else M)
          variables M"

definition update_variables :: "var_grad_ptr list \<Rightarrow> TfOpIdxMap \<Rightarrow> TfOpIdxMap" where
  "update_variables variables M =
     fold (\<lambda>variable M.
             M\<lparr>variable_map := addDataWhenNotFound variable (variable_map M)\<rparr>)
          variables M"

text \<open>
  The constructor up to its loop: three empty maps, then the empty buffer is put first.
\<close>

definition TfOpIdxMap_init :: "env \<Rightarrow> TfOpIdxMap" where
  "TfOpIdxMap_init E =
     \<lparr>buffer_map = addDataWhenNotFound (empty_buffer E) BidirectionalIndexMap_new,
      opcode_map = BidirectionalIndexMap_new,
      variable_map = BidirectionalIndexMap_new\<rparr>"

text \<open>The body of the loop over the nodes, and the whole constructor.\<close>

definition TfOpIdxMap_visit :: "env \<Rightarrow> TfOpNode \<Rightarrow> TfOpIdxMap \<Rightarrow> TfOpIdxMap" where
  "TfOpIdxMap_visit E op_node M =
     update_buffers E (weights op_node)
       (update_variables (weights op_node)
         (update_variables (outputs op_node)
           (update_variables (inputs op_node)
             (update_opcode (op_type op_node) M))))"

definition TfOpIdxMap_of_nodes :: "env \<Rightarrow> TfOpNode list \<Rightarrow> TfOpIdxMap" where
  "TfOpIdxMap_of_nodes E nodes = fold (TfOpIdxMap_visit E) nodes (TfOpIdxMap_init E)"

subsection \<open>Lowering, the section builders and serialize\<close>

text \<open>
  \<^verbatim>\<open>buildOpNodes\<close>: the loop constructs one node after the other at the back of the
  vector; a constructor that throws ends the loop and the function.
\<close>

fun buildOpNodes_loop :: "env \<Rightarrow> LayerNode list \<Rightarrow> TfOpNode list \<Rightarrow> error + TfOpNode list" where
  "buildOpNodes_loop E [] nodes = Inr nodes"
| "buildOpNodes_loop E (ln # rest) nodes =
     (case TfOpNode_of_Layer E (getObject ln) of
        Inl e \<Rightarrow> Inl e
      | Inr n \<Rightarrow> buildOpNodes_loop E rest (nodes @ [n]))"

definition buildOpNodes :: "env \<Rightarrow> GraphRepresentation \<Rightarrow> error + TfOpNode list" where
  "buildOpNodes E representation = buildOpNodes_loop E (getSorted representation) []"

text \<open>
  The three section builders are not yet implemented: each returns a
  default-constructed offset and leaves the builder as it was.
\<close>

definition buildBuffers :: "TfOpIdxMap \<Rightarrow> FlatBufferBuilder \<Rightarrow> offset \<times> FlatBufferBuilder" where
  "buildBuffers M fbb = (0, fbb)"

definition buildOperatorCodes :: "TfOpIdxMap \<Rightarrow> FlatBufferBuilder \<Rightarrow> offset \<times> FlatBufferBuilder" where
  "buildOperatorCodes M fbb = (0, fbb)"

definition buildSubGraph ::
  "TfOpNode list \<Rightarrow> TfOpIdxMap \<Rightarrow> FlatBufferBuilder \<Rightarrow> offset \<times> FlatBufferBuilder" where
  "buildSubGraph nodes M fbb = (0, fbb)"

text \<open>
  The builder of \<^verbatim>\<open>serialize\<close> from the lowered nodes on. The macro \<^verbatim>\<open>WILL(x)\<close> expands to
  an empty statement, so of the five \<^verbatim>\<open>add_...\<close> lines only \<^verbatim>\<open>add_version(3)\<close> and
  \<^verbatim>\<open>add_description(desc)\<close> are calls; the three offsets are unused.
\<close>

definition assemble :: "env \<Rightarrow> TfOpNode list \<Rightarrow> FlatBufferBuilder \<Rightarrow> FlatBufferBuilder" where
  "assemble E opNodes fbb0 =
     (let M = TfOpIdxMap_of_nodes E opNodes;
          (opcodes, fbb1) = buildOperatorCodes M fbb0;
          (buffers, fbb2) = buildBuffers M fbb1;
          (subgraph, fbb3) = buildSubGraph opNodes M fbb2;
          (desc, fbb4) = CreateString ''This file is generated from NNTrainer'' fbb3;
          model_builder = add_description desc (add_version 3 ModelBuilder_new);
          (model, fbb5) = ModelBuilder_Finish model_builder fbb4
      in Finish model fbb5)"

text \<open>
  \<^verbatim>\<open>serialize\<close> returns the exception or nothing, the builder as it is when the function
  is left, and the file system.
\<close>

definition serialize ::
  "env \<Rightarrow> GraphRepresentation \<Rightarrow> string \<Rightarrow> files \<Rightarrow>
   (error + unit) \<times> FlatBufferBuilder \<times> files" where
  "serialize E representation out fs =
     (let fbb = FlatBufferBuilder_new in
      case buildOpNodes E representation of
        Inl e \<Rightarrow> (Inl e, fbb, fs)
      | Inr opNodes \<Rightarrow>
          let fbb' = assemble E opNodes fbb;
              (r, fs') = builder2file E fbb' out fs
          in (r, fbb', fs'))"

subsection \<open>What the index builder and the lowering are to compute\<close>

text \<open>
  The three sequences of values in the order in which a single pass over the nodes
  meets them: the operator kind of every node; the input, output and weight references
  of every node, in this order; and, after the empty buffer, the data pointer of every
  weight whose tensor is initialized and allocated.
\<close>

definition opcode_sequence :: "TfOpNode list \<Rightarrow> BuiltinOperator option list" where
  "opcode_sequence nodes = map op_type nodes"

definition tensor_sequence :: "TfOpNode list \<Rightarrow> var_grad_ptr list" where
  "tensor_sequence nodes = concat (map (\<lambda>n. inputs n @ outputs n @ weights n) nodes)"

definition initialized_and_allocated :: "env \<Rightarrow> var_grad_ptr \<Rightarrow> bool" where
  "initialized_and_allocated E w \<longleftrightarrow>
     \<not> uninitialized (getVariableRef (var_grad_at E w)) \<and>
     isAllocated (getVariableRef (var_grad_at E w))"

definition weight_buffers :: "env \<Rightarrow> var_grad_ptr list \<Rightarrow> float_ptr list" where
  "weight_buffers E ws =
     map (\<lambda>w. Tensor_getData (getVariableRef (var_grad_at E w)))
       (filter (initialized_and_allocated E) ws)"

definition buffer_sequence :: "env \<Rightarrow> TfOpNode list \<Rightarrow> float_ptr list" where
  "buffer_sequence E nodes =
     empty_buffer E # concat (map (\<lambda>n. weight_buffers E (weights n)) nodes)"

text \<open>
  A graph node whose type resolves, and the operation node expected for a layer: the
  layer's three lists of addresses and the one operator kind there is.
\<close>

definition resolvable :: "env \<Rightarrow> LayerNode \<Rightarrow> bool" where
  "resolvable E ln \<longleftrightarrow> istrequal (getType (getObject ln)) (FullyConnectedLayer_type E)"

definition lowered :: "Layer \<Rightarrow> TfOpNode" where
  "lowered layer =
     \<lparr>inputs = getInputRef layer, outputs = getOutputRef layer,
      weights = getWeightsRef layer, op_type = Some BuiltinOperator_FULLY_CONNECTED\<rparr>"

text \<open>
  The root table with a version and a description and nothing else, and the builder
  that holds the description string and this table as its root.
\<close>

definition version_and_description :: ModelBuilder where
  "version_and_description =
     \<lparr>version = Some 3, operator_codes = None, subgraphs = None, description = Some 1,
      buffers = None\<rparr>"

definition assembled :: FlatBufferBuilder where
  "assembled =
     \<lparr>objects = [fbb_String ''This file is generated from NNTrainer'',
                 fbb_Model version_and_description],
      root = Some 2\<rparr>"

subsection \<open>An example\<close>

text \<open>
  Two fully connected layers in a row and a third layer of another type. The output
  of the first layer (at 11) is the input of the second. The first layer's second
  weight (at 21) is uninitialized, the second layer's first weight (at 22) is not
  allocated, and the tensor of the second layer's second weight (at 23) has the data
  pointer of the first layer's first weight (at 20). The
  encoding of the example gives one byte for every object of the builder; its verifier
  accepts every buffer that is not empty, and every path but the empty one can be
  opened.
\<close>

definition example_env :: env where
  "example_env =
     \<lparr>FullyConnectedLayer_type = ''fully_connected'',
      var_grad_at = (\<lambda>p. \<lparr>getVariableRef =
        \<lparr>uninitialized = (p = 21), isAllocated = (p \<noteq> 22),
         Tensor_getData = (if p = 23 then 120 else 100 + p)\<rparr>\<rparr>),
      empty_buffer = 1,
      GetBuffer = (\<lambda>fbb. map (\<lambda>obj. case obj of fbb_String s \<Rightarrow> of_nat (length s)
                                               | fbb_Model mb \<Rightarrow> 255) (objects fbb)),
      VerifyModelBuffer = (\<lambda>buf. buf \<noteq> []),
      ofstream_good = (\<lambda>fs out. out \<noteq> [])\<rparr>"

definition example_fc1 :: Layer where
  "example_fc1 =
     \<lparr>getInputRef = [10], getOutputRef = [11], getWeightsRef = [20, 21],
      getType = ''fully_connected''\<rparr>"

definition example_fc2 :: Layer where
  "example_fc2 =
     \<lparr>getInputRef = [11], getOutputRef = [12], getWeightsRef = [22, 23],
      getType = ''fully_connected''\<rparr>"

definition example_conv :: Layer where
  "example_conv =
     \<lparr>getInputRef = [12], getOutputRef = [13], getWeightsRef = [24],
      getType = ''conv2d''\<rparr>"

definition example_graph :: GraphRepresentation where
  "example_graph = \<lparr>getSorted = [\<lparr>getObject = example_fc1\<rparr>, \<lparr>getObject = example_fc2\<rparr>]\<rparr>"

definition unsupported_graph :: GraphRepresentation where
  "unsupported_graph =
     \<lparr>getSorted = [\<lparr>getObject = example_fc1\<rparr>, \<lparr>getObject = example_conv\<rparr>]\<rparr>"

definition example_nodes :: "TfOpNode list" where
  "example_nodes =
     [\<lparr>inputs = [10], outputs = [11], weights = [20, 21],
       op_type = Some BuiltinOperator_FULLY_CONNECTED\<rparr>,
      \<lparr>inputs = [11], outputs = [12], weights = [22, 23],
       op_type = Some BuiltinOperator_FULLY_CONNECTED\<rparr>]"

definition no_buffer_nodes :: "TfOpNode list" where
  "no_buffer_nodes =
     [\<lparr>inputs = [10], outputs = [11], weights = [21, 22],
       op_type = Some BuiltinOperator_FULLY_CONNECTED\<rparr>]"

section \<open>Properties\<close>

subsection \<open>The index map\<close>

lemma wf_index_map_new: "wf_index_map BidirectionalIndexMap_new"
  by (simp add: wf_index_map_def BidirectionalIndexMap_new_def)

lemma add_present: "data2index m d = Some i \<Longrightarrow> addDataWhenNotFound d m = m"
  by (simp add: addDataWhenNotFound_def)

lemma add_absent:
  "data2index m d = None \<Longrightarrow>
   addDataWhenNotFound d m =
     \<lparr>data2index = (data2index m)(d \<mapsto> of_nat (length (index2data m))),
      index2data = index2data m @ [d]\<rparr>"
  by (simp add: addDataWhenNotFound_def)

lemma wf_index_map_add:
  assumes "wf_index_map m"
  shows "wf_index_map (addDataWhenNotFound d m)"
proof (cases "data2index m d")
  case (Some i)
  then show ?thesis using assms by (simp add: add_present)
next
  case None
  from assms have dist: "distinct (index2data m)"
    and dm: "dom (data2index m) = set (index2data m)"
    and ix: "\<And>j. j < length (index2data m) \<Longrightarrow>
               data2index m (index2data m ! j) = Some (of_nat j)"
    by (simp_all add: wf_index_map_def)
  from None dm have notin: "d \<notin> set (index2data m)" by auto
  have "\<And>j. j < length (index2data m) \<Longrightarrow> index2data m ! j \<noteq> d"
    using notin nth_mem by metis
  then show ?thesis
    unfolding add_absent [OF None] wf_index_map_def
    using dist dm ix notin
    by (auto simp: nth_append less_Suc_eq)
qed

lemma wf_index_map_addAll: "wf_index_map m \<Longrightarrow> wf_index_map (addAll xs m)"
  unfolding addAll_def by (induction xs arbitrary: m) (simp_all add: wf_index_map_add)

lemma first_occurrences_set: "set (first_occurrences xs) = set xs"
  by (induction xs) auto

lemma first_occurrences_distinct: "distinct (first_occurrences xs)"
  by (induction xs) (auto simp: first_occurrences_set)

lemma first_occurrences_id: "distinct xs \<Longrightarrow> first_occurrences xs = xs"
  by (induction xs) (auto simp: filter_id_conv)

lemma index2data_addAll:
  "dom (data2index m) = set (index2data m) \<Longrightarrow>
   index2data (addAll xs m) =
     index2data m @ filter (\<lambda>y. y \<notin> set (index2data m)) (first_occurrences xs)"
proof (induction xs arbitrary: m)
  case Nil
  then show ?case by (simp add: addAll_def)
next
  case (Cons x xs)
  show ?case
  proof (cases "data2index m x")
    case None
    let ?m' = "addDataWhenNotFound x m"
    have m': "index2data ?m' = index2data m @ [x]"
      "dom (data2index ?m') = set (index2data ?m')"
      using Cons.prems by (simp_all add: add_absent [OF None])
    from None Cons.prems have "x \<notin> set (index2data m)" by auto
    then show ?thesis
      using Cons.IH [OF m'(2)] m'(1)
      by (simp add: addAll_def conj_commute)
  next
    case (Some i)
    with Cons.prems have in_m: "x \<in> set (index2data m)" by auto
    then have "filter (\<lambda>y. y \<notin> set (index2data m))
                 (filter (\<lambda>y. y \<noteq> x) (first_occurrences xs))
               = filter (\<lambda>y. y \<notin> set (index2data m)) (first_occurrences xs)"
      by (auto simp: filter_filter intro: filter_cong)
    then show ?thesis
      using Cons.IH [OF Cons.prems] Some in_m
      by (simp add: addAll_def add_present)
  qed
qed

lemma index2data_addAll_new:
  "index2data (addAll xs BidirectionalIndexMap_new) = first_occurrences xs"
  using index2data_addAll [of BidirectionalIndexMap_new xs]
  by (simp add: BidirectionalIndexMap_new_def)

lemma data2index_addAll_new:
  "j < length (first_occurrences xs) \<Longrightarrow>
   data2index (addAll xs BidirectionalIndexMap_new) (first_occurrences xs ! j) = Some (of_nat j)"
  using wf_index_map_addAll [OF wf_index_map_new, of xs]
  by (simp add: wf_index_map_def index2data_addAll_new)

lemma dom_addAll_new: "dom (data2index (addAll xs BidirectionalIndexMap_new)) = set xs"
  using wf_index_map_addAll [OF wf_index_map_new, of xs]
  by (simp add: wf_index_map_def index2data_addAll_new first_occurrences_set)

lemma getIndex_addAll_distinct:
  "distinct xs \<Longrightarrow> i < length xs \<Longrightarrow>
   getIndex (addAll xs BidirectionalIndexMap_new) (xs ! i) = Inr (xs ! i, of_nat i)"
  using data2index_addAll_new [of i xs]
  by (simp add: getIndex_def first_occurrences_id)

lemma getData_addAll_distinct:
  "distinct xs \<Longrightarrow> unat i < length xs \<Longrightarrow>
   getData (addAll xs BidirectionalIndexMap_new) i = Inr (xs ! unat i)"
  by (simp add: getData_def index2data_addAll_new first_occurrences_id)

text \<open>
  \<open>getData\<close> is well formed as written: an index at or beyond the size of the vector
  is answered with \<open>CannotFindData\<close>.
\<close>

lemma getData_out_of_range:
  "length (index2data m) \<le> unat i \<Longrightarrow> getData m i = Inl CannotFindData"
  by (simp add: getData_def)

text \<open>
  Claim C2. The claim is that \<open>getIndex\<close> returns the index a value was given, in the
  order of first insertion from 0 on, and that \<open>getData\<close> at this index is the value.
  The code does not meet it, by the slip in the last statement of \<open>getIndex\<close>. After 7, 5
  and 9 are inserted into a fresh map, the map does hold the index 2 for the value 9, and
  \<open>getData\<close> at 2 is 9; but \<open>getIndex\<close> of 9 returns the entry of 9, the pair of 9 and
  2, where an index is declared and documented. A pair is no argument for \<open>getData\<close>,
  and in the source it is no \<^verbatim>\<open>unsigned int\<close>: the member cannot be instantiated.
\<close>

theorem getIndex_returns_entry:
  "data2index (addAll [7, 5, 9 :: nat] BidirectionalIndexMap_new) 9 = Some 2 \<and>
   getData (addAll [7, 5, 9 :: nat] BidirectionalIndexMap_new) 2 = Inr 9 \<and>
   getIndex (addAll [7, 5, 9 :: nat] BidirectionalIndexMap_new) 9 = Inr (9, 2)"
  by (simp add: addAll_def addDataWhenNotFound_def BidirectionalIndexMap_new_def
      getIndex_def getData_def)

text \<open>
  Claim C7. For every index map and every value it holds, inserting the value again
  returns the map as it was; in particular the index kept for the value and the size
  of the map are what they were.
\<close>

theorem add_idempotent:
  assumes "data2index m v \<noteq> None"
  shows "addDataWhenNotFound v m = m \<and>
         data2index (addDataWhenNotFound v m) v = data2index m v \<and>
         length (index2data (addDataWhenNotFound v m)) = length (index2data m)"
  using assms by (auto simp: addDataWhenNotFound_def)

theorem add_idempotent_witness:
  "data2index (addAll [7, 5 :: nat] BidirectionalIndexMap_new) 7 \<noteq> None \<and>
   addDataWhenNotFound 7 (addAll [7, 5 :: nat] BidirectionalIndexMap_new)
     = addAll [7, 5 :: nat] BidirectionalIndexMap_new \<and>
   data2index (addDataWhenNotFound 7 (addAll [7, 5 :: nat] BidirectionalIndexMap_new)) 7
     = Some 0 \<and>
   length (index2data (addDataWhenNotFound 7 (addAll [7, 5 :: nat] BidirectionalIndexMap_new))) = 2"
  using add_idempotent [of "addAll [7, 5 :: nat] BidirectionalIndexMap_new" 7]
  by (simp add: addAll_def addDataWhenNotFound_def BidirectionalIndexMap_new_def)

subsection \<open>Facts about the example\<close>

lemma example_env_simps:
  "FullyConnectedLayer_type example_env = ''fully_connected''"
  "empty_buffer example_env = 1"
  "uninitialized (getVariableRef (var_grad_at example_env p)) = (p = 21)"
  "isAllocated (getVariableRef (var_grad_at example_env p)) = (p \<noteq> 22)"
  "Tensor_getData (getVariableRef (var_grad_at example_env p)) = (if p = 23 then 120 else 100 + p)"
  "VerifyModelBuffer example_env buf = (buf \<noteq> [])"
  "ofstream_good example_env fs out = (out \<noteq> [])"
  by (simp_all add: example_env_def)

lemma example_sequences:
  "opcode_sequence example_nodes
     = [Some BuiltinOperator_FULLY_CONNECTED, Some BuiltinOperator_FULLY_CONNECTED]"
  "tensor_sequence example_nodes = [10, 11, 20, 21, 11, 12, 22, 23]"
  "buffer_sequence example_env example_nodes = [1, 120, 120]"
  by (simp_all add: example_nodes_def opcode_sequence_def tensor_sequence_def
      buffer_sequence_def weight_buffers_def initialized_and_allocated_def example_env_simps)

lemma GetBuffer_example:
  "GetBuffer example_env FlatBufferBuilder_new = []"
  "GetBuffer example_env assembled = [37, 255]"
  by (simp_all add: example_env_def FlatBufferBuilder_new_def assembled_def)

lemma istrequal_refl: "istrequal a a"
  by (simp add: istrequal_def)

lemma istrequal_length: "length a \<noteq> length b \<Longrightarrow> \<not> istrequal a b"
  by (simp add: istrequal_def)

lemma istrequal_mixed_case: "istrequal ''FULLY_connected'' ''fully_connected''"
  by code_simp

lemma example_resolvable:
  "istrequal (getType example_fc1) (FullyConnectedLayer_type example_env)"
  "istrequal (getType example_fc2) (FullyConnectedLayer_type example_env)"
  by (simp_all add: example_fc1_def example_fc2_def example_env_simps istrequal_refl)

lemma example_lowering: "buildOpNodes example_env example_graph = Inr example_nodes"
  by (simp add: buildOpNodes_def example_graph_def example_fc1_def example_fc2_def
      example_env_simps istrequal_refl TfOpNode_of_Layer_def setOpType_def setOpType_op_def
      setInputs_def setOutputs_def setWeights_def TfOpNode_default_def example_nodes_def)

subsection \<open>Resolving the operator type and lowering\<close>

text \<open>
  Claim C10. \<open>setOpType\<close> succeeds exactly when the type string equals the type of the
  fully connected layer up to the case of its letters, and then it sets the operator
  kind \<open>BuiltinOperator_FULLY_CONNECTED\<close>; on every other type string it fails with
  \<open>NotSupportedType\<close>, so no other operator kind is ever the result.
\<close>

theorem setOpType_resolution:
  "(setOpType E type n = Inr n' \<longleftrightarrow>
      istrequal type (FullyConnectedLayer_type E) \<and>
      n' = n\<lparr>op_type := Some BuiltinOperator_FULLY_CONNECTED\<rparr>) \<and>
   (setOpType E type n = Inl e \<longleftrightarrow>
      \<not> istrequal type (FullyConnectedLayer_type E) \<and> e = NotSupportedType) \<and>
   (istrequal type (FullyConnectedLayer_type E) \<longleftrightarrow>
      length type = length (FullyConnectedLayer_type E) \<and>
      map tolower type = map tolower (FullyConnectedLayer_type E))"
  by (auto simp: setOpType_def setOpType_op_def istrequal_def)

theorem setOpType_resolution_witness:
  "setOpType example_env ''FULLY_connected'' TfOpNode_default =
     Inr (TfOpNode_default\<lparr>op_type := Some BuiltinOperator_FULLY_CONNECTED\<rparr>) \<and>
   setOpType example_env ''conv2d'' TfOpNode_default = Inl NotSupportedType"
  using setOpType_resolution [of example_env "''FULLY_connected''" TfOpNode_default
      "TfOpNode_default\<lparr>op_type := Some BuiltinOperator_FULLY_CONNECTED\<rparr>" NotSupportedType]
    setOpType_resolution [of example_env "''conv2d''" TfOpNode_default
      "TfOpNode_default" NotSupportedType]
    istrequal_mixed_case
  by (simp add: example_env_simps istrequal_def)

lemma TfOpNode_of_Layer_eq:
  "TfOpNode_of_Layer E layer =
     (if istrequal (getType layer) (FullyConnectedLayer_type E) then Inr (lowered layer)
      else Inl NotSupportedType)"
  by (simp add: TfOpNode_of_Layer_def setOpType_def setOpType_op_def setInputs_def
      setOutputs_def setWeights_def TfOpNode_default_def lowered_def)

lemma buildOpNodes_loop_eq:
  "buildOpNodes_loop E lns acc =
     (if list_all (resolvable E) lns then Inr (acc @ map (\<lambda>ln. lowered (getObject ln)) lns)
      else Inl NotSupportedType)"
  by (induction lns arbitrary: acc) (simp_all add: TfOpNode_of_Layer_eq resolvable_def)

lemma buildOpNodes_eq:
  "buildOpNodes E rep =
     (if list_all (resolvable E) (getSorted rep)
      then Inr (map (\<lambda>ln. lowered (getObject ln)) (getSorted rep))
      else Inl NotSupportedType)"
  by (simp add: buildOpNodes_def buildOpNodes_loop_eq)

text \<open>
  Claim C9. \<open>buildOpNodes\<close> returns a list of operation nodes exactly when the type of
  every graph node resolves (otherwise it throws, see C5 and C10). The list it returns
  has one node for every node of the sorted sequence, in the same order, and the
  \<open>i\<close>-th operation node holds the very addresses of the inputs, outputs and weights
  of the \<open>i\<close>-th graph node: the handles are copied as pointers, and no tensor is
  copied.
\<close>

theorem lowering_one_node_per_layer:
  "((\<exists>nodes. buildOpNodes E rep = Inr nodes) \<longleftrightarrow>
      (\<forall>ln \<in> set (getSorted rep).
          istrequal (getType (getObject ln)) (FullyConnectedLayer_type E))) \<and>
   (\<forall>nodes. buildOpNodes E rep = Inr nodes \<longrightarrow>
      length nodes = length (getSorted rep) \<and>
      (\<forall>i < length nodes.
          inputs (nodes ! i) = getInputRef (getObject (getSorted rep ! i)) \<and>
          outputs (nodes ! i) = getOutputRef (getObject (getSorted rep ! i)) \<and>
          weights (nodes ! i) = getWeightsRef (getObject (getSorted rep ! i)) \<and>
          op_type (nodes ! i) = Some BuiltinOperator_FULLY_CONNECTED))"
  by (auto simp: buildOpNodes_eq list_all_iff resolvable_def lowered_def)

theorem lowering_one_node_per_layer_witness:
  "buildOpNodes example_env example_graph = Inr example_nodes \<and>
   length example_nodes = length (getSorted example_graph) \<and>
   inputs (example_nodes ! 1) = getInputRef (getObject (getSorted example_graph ! 1)) \<and>
   weights (example_nodes ! 1) = getWeightsRef (getObject (getSorted example_graph ! 1))"
proof -
  have l: "(1::nat) < length example_nodes" by (simp add: example_nodes_def)
  from lowering_one_node_per_layer [of example_env example_graph] example_lowering l
  show ?thesis by auto
qed

subsection \<open>The cross-reference index builder\<close>

lemma update_variables_addAll:
  "update_variables vs M = M\<lparr>variable_map := addAll vs (variable_map M)\<rparr>"
  unfolding update_variables_def addAll_def
  by (induction vs arbitrary: M) simp_all

lemma update_buffers_addAll:
  "update_buffers E vs M = M\<lparr>buffer_map := addAll (weight_buffers E vs) (buffer_map M)\<rparr>"
  unfolding update_buffers_def addAll_def weight_buffers_def initialized_and_allocated_def
  by (induction vs arbitrary: M) (simp_all add: Let_def)

lemma visit_addAll:
  "TfOpIdxMap_visit E n M =
     \<lparr>buffer_map = addAll (weight_buffers E (weights n)) (buffer_map M),
      opcode_map = addAll [op_type n] (opcode_map M),
      variable_map = addAll (inputs n @ outputs n @ weights n) (variable_map M)\<rparr>"
  by (simp add: TfOpIdxMap_visit_def update_variables_addAll update_buffers_addAll
      update_opcode_def addAll_def)

lemma fold_visit_addAll:
  "fold (TfOpIdxMap_visit E) nodes M =
     \<lparr>buffer_map =
        addAll (concat (map (\<lambda>n. weight_buffers E (weights n)) nodes)) (buffer_map M),
      opcode_map = addAll (opcode_sequence nodes) (opcode_map M),
      variable_map = addAll (tensor_sequence nodes) (variable_map M)\<rparr>"
proof (induction nodes arbitrary: M)
  case Nil
  then show ?case by (simp add: addAll_def opcode_sequence_def tensor_sequence_def)
next
  case (Cons n nodes)
  show ?case
    unfolding fold_Cons comp_apply Cons.IH
    by (simp add: visit_addAll opcode_sequence_def tensor_sequence_def addAll_def)
qed

lemma TfOpIdxMap_of_nodes_addAll:
  "TfOpIdxMap_of_nodes E nodes =
     \<lparr>buffer_map = addAll (buffer_sequence E nodes) BidirectionalIndexMap_new,
      opcode_map = addAll (opcode_sequence nodes) BidirectionalIndexMap_new,
      variable_map = addAll (tensor_sequence nodes) BidirectionalIndexMap_new\<rparr>"
  by (simp add: TfOpIdxMap_of_nodes_def fold_visit_addAll TfOpIdxMap_init_def
      buffer_sequence_def addAll_def)

lemma length_first_occurrences: "length (first_occurrences xs) = card (set xs)"
  using distinct_card [OF first_occurrences_distinct, of xs]
  by (simp add: first_occurrences_set)

lemma opcode_map_size:
  "length (index2data (opcode_map (TfOpIdxMap_of_nodes E nodes))) = card (op_type ` set nodes)"
  by (simp add: TfOpIdxMap_of_nodes_addAll index2data_addAll_new length_first_occurrences
      opcode_sequence_def)

text \<open>
  Claim C3. The constructor of \<open>TfOpIdxMap\<close>, a loop over the nodes with three inner
  loops, builds the same three maps as inserting, into a fresh map each, the operator
  kinds in node order, the input, output and weight references in node order, and
  the empty buffer followed by the data pointers of the initialized and allocated
  weights in node order. So the vector of each map is the sequence of first
  occurrences of its sequence, each map is well formed (the entry at position \<open>j\<close>
  has the index \<open>j\<close>, as an \<^verbatim>\<open>unsigned int\<close>), and the buffer map holds the empty buffer and the buffers of
  exactly the initialized and allocated weights: the numbering is a function of the
  order of the nodes and of the references in them.
\<close>

theorem index_builder_single_pass:
  "TfOpIdxMap_of_nodes E nodes =
     \<lparr>buffer_map = addAll (buffer_sequence E nodes) BidirectionalIndexMap_new,
      opcode_map = addAll (opcode_sequence nodes) BidirectionalIndexMap_new,
      variable_map = addAll (tensor_sequence nodes) BidirectionalIndexMap_new\<rparr> \<and>
   index2data (opcode_map (TfOpIdxMap_of_nodes E nodes))
     = first_occurrences (opcode_sequence nodes) \<and>
   index2data (variable_map (TfOpIdxMap_of_nodes E nodes))
     = first_occurrences (tensor_sequence nodes) \<and>
   index2data (buffer_map (TfOpIdxMap_of_nodes E nodes))
     = first_occurrences (buffer_sequence E nodes) \<and>
   set (index2data (buffer_map (TfOpIdxMap_of_nodes E nodes)))
     = insert (empty_buffer E)
         {Tensor_getData (getVariableRef (var_grad_at E w)) | n w.
            n \<in> set nodes \<and> w \<in> set (weights n) \<and> initialized_and_allocated E w} \<and>
   wf_index_map (opcode_map (TfOpIdxMap_of_nodes E nodes)) \<and>
   wf_index_map (variable_map (TfOpIdxMap_of_nodes E nodes)) \<and>
   wf_index_map (buffer_map (TfOpIdxMap_of_nodes E nodes))"
proof -
  have "set (first_occurrences (buffer_sequence E nodes))
     = insert (empty_buffer E)
         {Tensor_getData (getVariableRef (var_grad_at E w)) | n w.
            n \<in> set nodes \<and> w \<in> set (weights n) \<and> initialized_and_allocated E w}"
    unfolding first_occurrences_set buffer_sequence_def weight_buffers_def by auto
  then show ?thesis
    by (simp add: TfOpIdxMap_of_nodes_addAll index2data_addAll_new
        wf_index_map_addAll wf_index_map_new)
qed

theorem index_builder_single_pass_witness:
  "index2data (opcode_map (TfOpIdxMap_of_nodes example_env example_nodes))
     = [Some BuiltinOperator_FULLY_CONNECTED] \<and>
   index2data (variable_map (TfOpIdxMap_of_nodes example_env example_nodes))
     = [10, 11, 20, 21, 12, 22, 23] \<and>
   index2data (buffer_map (TfOpIdxMap_of_nodes example_env example_nodes)) = [1, 120] \<and>
   wf_index_map (variable_map (TfOpIdxMap_of_nodes example_env example_nodes))"
proof -
  note t = index_builder_single_pass [of example_env example_nodes, unfolded example_sequences]
  from t have "index2data (opcode_map (TfOpIdxMap_of_nodes example_env example_nodes))
     = first_occurrences
         [Some BuiltinOperator_FULLY_CONNECTED, Some BuiltinOperator_FULLY_CONNECTED]"
    and "index2data (variable_map (TfOpIdxMap_of_nodes example_env example_nodes))
     = first_occurrences [10, 11, 20, 21, 11, 12, 22, 23]"
    and "index2data (buffer_map (TfOpIdxMap_of_nodes example_env example_nodes))
     = first_occurrences [1, 120, 120]"
    and "wf_index_map (variable_map (TfOpIdxMap_of_nodes example_env example_nodes))"
    by blast+
  then show ?thesis by simp
qed

text \<open>
  Claim C4. Before the loop over the nodes starts, the buffer map holds the empty
  buffer and nothing else. Whatever the nodes are, the entry at index 0 of the finished
  buffer map is the empty buffer, and the index kept for the empty buffer is 0. When no
  weight of any node is both initialized and allocated, the empty buffer is the only
  entry, so the buffer map has size 1.
\<close>

theorem buffer_map_sentinel:
  "index2data (buffer_map (TfOpIdxMap_init E)) = [empty_buffer E] \<and>
   getData (buffer_map (TfOpIdxMap_init E)) 0 = Inr (empty_buffer E) \<and>
   getData (buffer_map (TfOpIdxMap_of_nodes E nodes)) 0 = Inr (empty_buffer E) \<and>
   data2index (buffer_map (TfOpIdxMap_of_nodes E nodes)) (empty_buffer E) = Some 0 \<and>
   ((\<forall>n \<in> set nodes. \<forall>w \<in> set (weights n).
        uninitialized (getVariableRef (var_grad_at E w)) \<or>
        \<not> isAllocated (getVariableRef (var_grad_at E w))) \<longrightarrow>
    index2data (buffer_map (TfOpIdxMap_of_nodes E nodes)) = [empty_buffer E] \<and>
    length (index2data (buffer_map (TfOpIdxMap_of_nodes E nodes))) = 1)"
proof -
  let ?bm = "buffer_map (TfOpIdxMap_of_nodes E nodes)"
  have init: "index2data (buffer_map (TfOpIdxMap_init E)) = [empty_buffer E]"
    by (simp add: TfOpIdxMap_init_def addDataWhenNotFound_def BidirectionalIndexMap_new_def)
  have bm: "?bm = addAll (buffer_sequence E nodes) BidirectionalIndexMap_new"
    by (simp add: TfOpIdxMap_of_nodes_addAll)
  have i2d: "index2data ?bm = first_occurrences (buffer_sequence E nodes)"
    by (simp add: bm index2data_addAll_new)
  have pos: "0 < length (index2data ?bm)" and hd0: "index2data ?bm ! 0 = empty_buffer E"
    by (simp_all add: i2d buffer_sequence_def)
  have gd: "getData ?bm 0 = Inr (empty_buffer E)"
    using pos hd0 by (simp add: getData_def)
  have "data2index ?bm (first_occurrences (buffer_sequence E nodes) ! 0) = Some (of_nat 0)"
    unfolding bm by (rule data2index_addAll_new) (simp add: buffer_sequence_def)
  then have gi: "data2index ?bm (empty_buffer E) = Some 0"
    by (simp add: buffer_sequence_def)
  have none: "index2data ?bm = [empty_buffer E]"
    if "\<forall>n \<in> set nodes. \<forall>w \<in> set (weights n).
        uninitialized (getVariableRef (var_grad_at E w)) \<or>
        \<not> isAllocated (getVariableRef (var_grad_at E w))"
  proof -
    have "\<And>n. n \<in> set nodes \<Longrightarrow> weight_buffers E (weights n) = []"
      using that
      by (auto simp: weight_buffers_def initialized_and_allocated_def filter_empty_conv)
    then have c: "concat (map (\<lambda>n. weight_buffers E (weights n)) nodes) = []"
      by simp
    show ?thesis unfolding i2d buffer_sequence_def c by simp
  qed
  show ?thesis using init gd gi none by (simp add: getData_def)
qed

theorem buffer_map_sentinel_witness:
  "getData (buffer_map (TfOpIdxMap_of_nodes example_env example_nodes)) 0 = Inr 1 \<and>
   data2index (buffer_map (TfOpIdxMap_of_nodes example_env example_nodes)) 1 = Some 0 \<and>
   index2data (buffer_map (TfOpIdxMap_of_nodes example_env no_buffer_nodes)) = [1] \<and>
   length (index2data (buffer_map (TfOpIdxMap_of_nodes example_env no_buffer_nodes))) = 1"
proof -
  have h: "\<forall>n \<in> set no_buffer_nodes. \<forall>w \<in> set (weights n).
        uninitialized (getVariableRef (var_grad_at example_env w)) \<or>
        \<not> isAllocated (getVariableRef (var_grad_at example_env w))"
    by (simp add: no_buffer_nodes_def example_env_simps)
  show ?thesis
    using buffer_map_sentinel [of example_env example_nodes]
      buffer_map_sentinel [of example_env no_buffer_nodes] h
    by (simp add: example_env_simps)
qed

subsection \<open>Export\<close>

lemma assemble_eq: "assemble E opNodes FlatBufferBuilder_new = assembled"
  by (simp add: assemble_def buildOperatorCodes_def buildBuffers_def buildSubGraph_def
      CreateString_def ModelBuilder_Finish_def Finish_def add_version_def add_description_def
      ModelBuilder_new_def FlatBufferBuilder_new_def assembled_def version_and_description_def)

lemma root_model_assembled: "root_model assembled = Some version_and_description"
  by (simp add: root_model_def assembled_def)

lemma serialize_resolvable:
  "list_all (resolvable E) (getSorted rep) \<Longrightarrow>
   serialize E rep out fs =
     (fst (builder2file E assembled out fs), assembled, snd (builder2file E assembled out fs))"
  by (simp add: serialize_def buildOpNodes_eq assemble_eq split_beta)

text \<open>
  Claim C6. \<open>builder2file\<close> tests the bytes of the builder with the verifier first: when
  the verifier rejects them the result is \<open>VerifyingFailed\<close> and the file system is the
  one given, no file opened and none written. Conversely, whenever the file system
  after the call differs from the one before, the verifier has accepted the bytes, the
  call has succeeded, and the destination holds exactly these bytes.
\<close>

theorem writer_verifies_before_writing:
  "(\<not> VerifyModelBuffer E (GetBuffer E builder) \<longrightarrow>
      builder2file E builder out fs = (Inl VerifyingFailed, fs)) \<and>
   (snd (builder2file E builder out fs) \<noteq> fs \<longrightarrow>
      VerifyModelBuffer E (GetBuffer E builder) \<and>
      builder2file E builder out fs = (Inr (), fs(out \<mapsto> GetBuffer E builder)))"
  by (auto simp: builder2file_def Let_def ofstream_open_def ofstream_write_def)

theorem writer_verifies_before_writing_witness:
  "\<not> VerifyModelBuffer example_env (GetBuffer example_env FlatBufferBuilder_new) \<and>
   builder2file example_env FlatBufferBuilder_new ''model.tflite'' Map.empty
     = (Inl VerifyingFailed, Map.empty) \<and>
   snd (builder2file example_env assembled ''model.tflite'' Map.empty) \<noteq> Map.empty \<and>
   VerifyModelBuffer example_env (GetBuffer example_env assembled) \<and>
   builder2file example_env assembled ''model.tflite'' Map.empty
     = (Inr (), [''model.tflite'' \<mapsto> [37, 255]])"
proof -
  have ch: "snd (builder2file example_env assembled ''model.tflite'' Map.empty) \<noteq> Map.empty"
    by (simp add: builder2file_def GetBuffer_example example_env_simps ofstream_open_def
        ofstream_write_def)
  show ?thesis
    using writer_verifies_before_writing
        [of example_env FlatBufferBuilder_new "''model.tflite''" Map.empty]
      writer_verifies_before_writing [of example_env assembled "''model.tflite''" Map.empty]
      ch
    by (simp add: GetBuffer_example example_env_simps)
qed

text \<open>
  Claim C5. When the type of some node of the graph does not resolve, \<open>serialize\<close>
  fails with \<open>NotSupportedType\<close>; the builder is then still the freshly constructed,
  empty one, and the file system is the one given: the destination is neither created
  nor modified.
\<close>

theorem unsupported_operator_aborts:
  assumes "\<exists>ln \<in> set (getSorted rep).
             \<not> istrequal (getType (getObject ln)) (FullyConnectedLayer_type E)"
  shows "serialize E rep out fs = (Inl NotSupportedType, FlatBufferBuilder_new, fs)"
proof -
  from assms have "\<not> list_all (resolvable E) (getSorted rep)"
    by (auto simp: list_all_iff resolvable_def)
  then show ?thesis by (simp add: serialize_def buildOpNodes_eq)
qed

theorem unsupported_operator_aborts_witness:
  "\<not> istrequal (getType example_conv) (FullyConnectedLayer_type example_env) \<and>
   serialize example_env unsupported_graph ''model.tflite'' Map.empty
     = (Inl NotSupportedType, FlatBufferBuilder_new, Map.empty)"
proof -
  have n: "\<not> istrequal (getType example_conv) (FullyConnectedLayer_type example_env)"
    by (simp add: example_conv_def example_env_simps istrequal_length)
  then have "\<exists>ln \<in> set (getSorted unsupported_graph).
               \<not> istrequal (getType (getObject ln)) (FullyConnectedLayer_type example_env)"
    by (simp add: unsupported_graph_def)
  from unsupported_operator_aborts [OF this, of "''model.tflite''" Map.empty] n
  show ?thesis by simp
qed

text \<open>
  Claim C1, as amended. For every graph whose nodes all have resolvable types,
  lowering returns one operation node for every graph node, in the sorted order and
  with the graph node's handles, and the opcode map built from them has one entry for
  every distinct operator kind. The root table that \<open>serialize\<close> assembles holds the
  version 3 and the description string, and none of the three sections: the section
  builders return offsets that refer to nothing, and no section is added to the table.
  If the verifier accepts the bytes of this builder and the destination can be opened,
  \<open>serialize\<close> succeeds and the destination holds these bytes.
\<close>

theorem export_of_resolvable_graph:
  assumes "\<forall>ln \<in> set (getSorted rep).
             istrequal (getType (getObject ln)) (FullyConnectedLayer_type E)"
  shows "\<exists>nodes. buildOpNodes E rep = Inr nodes \<and>
           length nodes = length (getSorted rep) \<and>
           (\<forall>i < length nodes.
              inputs (nodes ! i) = getInputRef (getObject (getSorted rep ! i)) \<and>
              outputs (nodes ! i) = getOutputRef (getObject (getSorted rep ! i)) \<and>
              weights (nodes ! i) = getWeightsRef (getObject (getSorted rep ! i))) \<and>
           length (index2data (opcode_map (TfOpIdxMap_of_nodes E nodes)))
             = card (op_type ` set nodes) \<and>
           buildOperatorCodes (TfOpIdxMap_of_nodes E nodes) FlatBufferBuilder_new
             = (0, FlatBufferBuilder_new) \<and>
           root_model (assemble E nodes FlatBufferBuilder_new)
             = Some \<lparr>version = Some 3, operator_codes = None, subgraphs = None,
                     description = Some 1, buffers = None\<rparr> \<and>
           objects (assemble E nodes FlatBufferBuilder_new) ! 0
             = fbb_String ''This file is generated from NNTrainer'' \<and>
           fst (snd (serialize E rep out fs)) = assemble E nodes FlatBufferBuilder_new \<and>
           (VerifyModelBuffer E (GetBuffer E (assemble E nodes FlatBufferBuilder_new)) \<and>
            ofstream_good E fs out \<longrightarrow>
              serialize E rep out fs =
                (Inr (), assemble E nodes FlatBufferBuilder_new,
                 fs(out \<mapsto> GetBuffer E (assemble E nodes FlatBufferBuilder_new))))"
proof -
  from assms have all: "list_all (resolvable E) (getSorted rep)"
    by (simp add: list_all_iff resolvable_def)
  let ?nodes = "map (\<lambda>ln. lowered (getObject ln)) (getSorted rep)"
  have b: "buildOpNodes E rep = Inr ?nodes"
    using all by (simp add: buildOpNodes_eq)
  have h: "\<forall>i < length ?nodes.
              inputs (?nodes ! i) = getInputRef (getObject (getSorted rep ! i)) \<and>
              outputs (?nodes ! i) = getOutputRef (getObject (getSorted rep ! i)) \<and>
              weights (?nodes ! i) = getWeightsRef (getObject (getSorted rep ! i))"
    by (simp add: lowered_def)
  have oc: "length (index2data (opcode_map (TfOpIdxMap_of_nodes E ?nodes)))
              = card (op_type ` set ?nodes)"
    by (rule opcode_map_size)
  have st: "buildOperatorCodes (TfOpIdxMap_of_nodes E ?nodes) FlatBufferBuilder_new
              = (0, FlatBufferBuilder_new)"
    by (simp add: buildOperatorCodes_def)
  have rm: "root_model (assemble E ?nodes FlatBufferBuilder_new)
              = Some \<lparr>version = Some 3, operator_codes = None, subgraphs = None,
                     description = Some 1, buffers = None\<rparr>"
    by (simp add: assemble_eq root_model_assembled version_and_description_def)
  have d: "objects (assemble E ?nodes FlatBufferBuilder_new) ! 0
             = fbb_String ''This file is generated from NNTrainer''"
    by (simp add: assemble_eq assembled_def)
  have s: "fst (snd (serialize E rep out fs)) = assemble E ?nodes FlatBufferBuilder_new"
    using all by (simp add: serialize_resolvable assemble_eq)
  have w: "serialize E rep out fs =
             (Inr (), assemble E ?nodes FlatBufferBuilder_new,
              fs(out \<mapsto> GetBuffer E (assemble E ?nodes FlatBufferBuilder_new)))"
    if "VerifyModelBuffer E (GetBuffer E (assemble E ?nodes FlatBufferBuilder_new))"
      and "ofstream_good E fs out"
    using that all
    by (simp add: serialize_resolvable assemble_eq builder2file_def ofstream_open_def
        ofstream_write_def)
  show ?thesis
    using b h oc st rm d s w by (intro exI [of _ ?nodes]) simp
qed

theorem export_of_resolvable_graph_witness:
  "istrequal (getType example_fc1) (FullyConnectedLayer_type example_env) \<and>
   istrequal (getType example_fc2) (FullyConnectedLayer_type example_env) \<and>
   buildOpNodes example_env example_graph = Inr example_nodes \<and>
   length (index2data (opcode_map (TfOpIdxMap_of_nodes example_env example_nodes))) = 1 \<and>
   serialize example_env example_graph ''model.tflite'' Map.empty
     = (Inr (), assembled, [''model.tflite'' \<mapsto> [37, 255]])"
proof -
  have r: "\<forall>ln \<in> set (getSorted example_graph).
             istrequal (getType (getObject ln)) (FullyConnectedLayer_type example_env)"
    using example_resolvable by (simp add: example_graph_def)
  have a: "assemble example_env example_nodes FlatBufferBuilder_new = assembled"
    by (rule assemble_eq)
  have c: "card (op_type ` set example_nodes) = 1"
    by (simp add: example_nodes_def)
  from export_of_resolvable_graph [OF r, of "''model.tflite''" Map.empty]
  show ?thesis
    using example_resolvable example_lowering a c
    by (auto simp: example_env_simps GetBuffer_example)
qed

text \<open>
  The claim as first stated fails on the example graph, two fully connected layers:
  the export succeeds, and the root table of the container has no operator-kind table,
  no subgraph and no buffer table, although the graph has two nodes and one operator
  kind.
\<close>

theorem sections_not_packed_counterexample:
  "istrequal (getType example_fc1) (FullyConnectedLayer_type example_env) \<and>
   istrequal (getType example_fc2) (FullyConnectedLayer_type example_env) \<and>
   fst (serialize example_env example_graph ''model.tflite'' Map.empty) = Inr () \<and>
   root_model (fst (snd (serialize example_env example_graph ''model.tflite'' Map.empty)))
     = Some \<lparr>version = Some 3, operator_codes = None, subgraphs = None,
             description = Some 1, buffers = None\<rparr>"
proof -
  have r: "list_all (resolvable example_env) (getSorted example_graph)"
    using example_resolvable by (simp add: example_graph_def resolvable_def)
  show ?thesis
    using example_resolvable
    by (simp add: serialize_resolvable [OF r] builder2file_def GetBuffer_example
        example_env_simps root_model_assembled version_and_description_def)
qed

end
